theory Spec2Isabelle
  imports
    Complex_Main
    "HOL-Library.Char_ord"
    "HOL-Library.List_Lexorder"
    "HOL-Library.Sublist"
    "HOL-Library.Multiset"
begin

section \<open>The report model\<close>

text \<open>
  The report is the JSON object that \<^verbatim>\<open>objdiff-cli report --format json\<close> prints, as the two
  rendering surfaces read it: \<^verbatim>\<open>total_progress\<close>, \<^verbatim>\<open>matched_objects\<close>, \<^verbatim>\<open>total_objects\<close> and
  \<^verbatim>\<open>units\<close>; each unit has \<^verbatim>\<open>name\<close>, \<^verbatim>\<open>match_percent\<close> and \<^verbatim>\<open>symbols\<close>; each symbol has
  \<^verbatim>\<open>name\<close>, \<^verbatim>\<open>match_percent\<close>, \<^verbatim>\<open>base_size\<close> and \<^verbatim>\<open>target_size\<close>.

  The records below are reports of the documented shape. Numbers that are fractions are
  rationals: the order of the finite numbers a JSON text denotes is the order of the
  rationals, and the products with 100 are exact (the rounding of the binary floating point
  product is not modelled). Byte counts and object counts are naturals. Strings are lists of
  8-bit characters. The \<^verbatim>\<open>timestamp\<close> is shown through \<^verbatim>\<open>toLocaleString\<close>, which depends on the
  locale of the user, and is left out.
\<close>

record Symbol =
  s_name :: string
  s_match_percent :: rat
  base_size :: nat
  target_size :: nat

record Unit =
  name :: string
  match_percent :: rat
  symbols :: "Symbol list"

record Report =
  total_progress :: rat
  matched_objects :: nat
  total_objects :: nat
  units :: "Unit list"

section \<open>Strings and numbers of the platform\<close>

text \<open>
  \<^verbatim>\<open>String.prototype.toLowerCase\<close>: the letters A to Z have a lower-case form, the other
  characters stay.
\<close>

definition toLowerCase_char :: "char \<Rightarrow> char" where
  "toLowerCase_char c =
     (case map_of (zip ''ABCDEFGHIJKLMNOPQRSTUVWXYZ'' ''abcdefghijklmnopqrstuvwxyz'') c of
        None \<Rightarrow> c
      | Some l \<Rightarrow> l)"

definition toLowerCase :: "string \<Rightarrow> string" where
  "toLowerCase s = map toLowerCase_char s"

text \<open>\<^verbatim>\<open>s.includes(q)\<close>: \<^verbatim>\<open>q\<close> occurs in \<^verbatim>\<open>s\<close> at some position.\<close>

fun String_includes :: "string \<Rightarrow> string \<Rightarrow> bool" where
  "String_includes [] q = (q = [])"
| "String_includes (c # cs) q = (prefix q (c # cs) \<or> String_includes cs q)"

text \<open>The decimal digits of a non-negative integer, as a template literal prints it.\<close>

definition digit :: "nat \<Rightarrow> char" where
  "digit d = ''0123456789'' ! d"

fun string_of_nat :: "nat \<Rightarrow> string" where
  "string_of_nat n = (if n < 10 then [digit n] else string_of_nat (n div 10) @ [digit (n mod 10)])"

declare string_of_nat.simps [simp del]

text \<open>
  \<^verbatim>\<open>x.toFixed(2)\<close>: the sign, then the integer \<open>n\<close> for which \<open>n / 100\<close> is closest to the
  magnitude of \<open>x\<close> (the larger one of two), printed with two digits after the point.
  From \<open>10\<^sup>2\<^sup>1\<close> on JavaScript prints the number in exponent notation instead; that range
  is outside this definition.
\<close>

definition toFixed2 :: "rat \<Rightarrow> string" where
  "toFixed2 x =
     (let n = nat \<lfloor>\<bar>x\<bar> * 100 + 1 / 2\<rfloor>
      in (if x < 0 then ''-'' else '''') @ string_of_nat (n div 100) @ ''.''
           @ [digit ((n mod 100) div 10), digit (n mod 10)])"

section \<open>The view state and the page\<close>

datatype sort_direction = Asc | Desc

text \<open>
  The \<^verbatim>\<open>state\<close> object of \<^verbatim>\<open>objdiff.js\<close>; \<^verbatim>\<open>renderer.js\<close> holds the same five fields under the
  names \<^verbatim>\<open>dashboardReport\<close>, \<^verbatim>\<open>dashboardExpandedRows\<close>, \<^verbatim>\<open>dashboardFilterQuery\<close>,
  \<^verbatim>\<open>dashboardSortKey\<close> and \<^verbatim>\<open>dashboardSortDirection\<close>.
\<close>

record state =
  report :: "Report option"
  expandedRows :: "string set"
  filterQuery :: string
  sortKey :: string
  sortDirection :: sort_direction

definition initial_state :: state where
  "initial_state =
     \<lparr>report = None, expandedRows = {}, filterQuery = '''',
      sortKey = ''match_percent'', sortDirection = Asc\<rparr>"

text \<open>
  The table body is markup built from templates. A \<^verbatim>\<open>tr\<close> of a unit is kept as the values the
  template interpolates; the \<^verbatim>\<open>tr class="details-row"\<close> is kept as the list of its \<^verbatim>\<open>li\<close>
  elements, each as the text inside the element.
\<close>

record unit_row =
  tr_class :: "string list"
  data_unit_name :: string
  td_name :: string
  td_percent :: string
  td_status_class :: string
  td_status :: string

datatype table_row = UnitRow unit_row | DetailsRow "string list"

text \<open>
  The elements of the page that the report code reads or writes. \<^verbatim>\<open>hidden\<close> and
  \<^verbatim>\<open>text-red-500\<close> are the classes toggled on them; \<open>sortIndicator\<close> holds the key and the
  direction whose class (\<^verbatim>\<open>sort-asc\<close> or \<^verbatim>\<open>sort-desc\<close>) is on the header cell of that key, all
  other sortable header cells having neither class.
\<close>

record page =
  runReportBtn_disabled :: bool
  runReportBtn_text :: string
  reportPlaceholder_hidden :: bool
  reportPlaceholder_text :: string
  reportPlaceholder_red :: bool
  resultsTable_hidden :: bool
  summarySection_hidden :: bool
  controlsSection_hidden :: bool
  filterInput_value :: string
  overallProgress_text :: string
  progressBar_width :: string
  matchedObjects_text :: string
  tableBody :: "table_row list"
  sortIndicator :: "(string \<times> sort_direction) option"

text \<open>A function that writes to the page either returns or throws with the page as it is then.\<close>

datatype outcome = Returned page | Thrown string page

section \<open>Sorting\<close>

text \<open>
  \<^verbatim>\<open>valA < valB\<close> for \<^verbatim>\<open>valA = a[key]\<close> and \<^verbatim>\<open>valB = b[key]\<close>. Both values are the same
  property of two units: two strings are compared as sequences of characters, two numbers
  as numbers, two arrays of symbol objects through their conversion to strings, and
  \<^verbatim>\<open>undefined\<close> is not less than \<^verbatim>\<open>undefined\<close>.
\<close>

fun join :: "string list \<Rightarrow> string" where
  "join [] = []"
| "join [x] = x"
| "join (x # y # ys) = x @ '','' @ join (y # ys)"

definition symbols_toString :: "Symbol list \<Rightarrow> string" where
  "symbols_toString ss = join (map (\<lambda>s. ''[object Object]'') ss)"

definition prop_less :: "string \<Rightarrow> Unit \<Rightarrow> Unit \<Rightarrow> bool" where
  "prop_less key a b =
     (if key = ''name'' then name a < name b
      else if key = ''match_percent'' then match_percent a < match_percent b
      else if key = ''symbols'' then symbols_toString (symbols a) < symbols_toString (symbols b)
      else False)"

text \<open>The comparator that \<^verbatim>\<open>sortUnits\<close> and \<^verbatim>\<open>sortDashboardUnits\<close> pass to \<^verbatim>\<open>sort\<close>.\<close>

definition compare_units :: "string \<Rightarrow> sort_direction \<Rightarrow> Unit \<Rightarrow> Unit \<Rightarrow> int" where
  "compare_units key dir a b =
     (if prop_less key a b then (if dir = Asc then - 1 else 1)
      else if prop_less key b a then (if dir = Asc then 1 else - 1)
      else 0)"

text \<open>
  \<^verbatim>\<open>Array.prototype.sort\<close> with a comparator. The language fixes the result for a consistent
  comparator: the elements in comparator order, elements that compare as equal in the order
  they had. Inserting each element, from the last one on, in front of the first element it
  does not follow computes that result.
\<close>

fun insert_sorted :: "('a \<Rightarrow> 'a \<Rightarrow> int) \<Rightarrow> 'a \<Rightarrow> 'a list \<Rightarrow> 'a list" where
  "insert_sorted cmp x [] = [x]"
| "insert_sorted cmp x (y # ys) =
     (if cmp x y \<le> 0 then x # y # ys else y # insert_sorted cmp x ys)"

definition Array_sort :: "('a \<Rightarrow> 'a \<Rightarrow> int) \<Rightarrow> 'a list \<Rightarrow> 'a list" where
  "Array_sort cmp xs = foldr (insert_sorted cmp) xs []"

definition sortUnits :: "state \<Rightarrow> state" where
  "sortUnits s =
     (case report s of
        None \<Rightarrow> s
      | Some r \<Rightarrow>
          s\<lparr>report :=
              Some (r\<lparr>units := Array_sort (compare_units (sortKey s) (sortDirection s)) (units r)\<rparr>)\<rparr>)"

section \<open>The standalone report page (objdiff.js)\<close>

definition setLoadingState :: "bool \<Rightarrow> page \<Rightarrow> page" where
  "setLoadingState isLoading p =
     (if isLoading then
        p\<lparr>runReportBtn_disabled := True,
          runReportBtn_text := ''Running...'',
          reportPlaceholder_text := ''Executing objdiff-cli, this may take a moment...'',
          reportPlaceholder_red := False,
          reportPlaceholder_hidden := False,
          resultsTable_hidden := True,
          summarySection_hidden := True,
          controlsSection_hidden := True\<rparr>
      else
        p\<lparr>runReportBtn_disabled := False,
          runReportBtn_text := ''Run Verification Report''\<rparr>)"

definition setErrorState :: "string \<Rightarrow> page \<Rightarrow> page" where
  "setErrorState message p =
     p\<lparr>summarySection_hidden := True,
       resultsTable_hidden := True,
       controlsSection_hidden := True,
       reportPlaceholder_hidden := False,
       reportPlaceholder_text := ''Error: '' @ message,
       reportPlaceholder_red := True\<rparr>"

definition renderSummary :: "Report \<Rightarrow> page \<Rightarrow> page" where
  "renderSummary r p =
     (let progress = toFixed2 (total_progress r * 100)
      in p\<lparr>overallProgress_text := progress @ ''%'',
           progressBar_width := progress @ ''%'',
           matchedObjects_text :=
             string_of_nat (matched_objects r) @ '' / '' @ string_of_nat (total_objects r)\<rparr>)"

definition renderDetailsRow :: "Unit \<Rightarrow> table_row" where
  "renderDetailsRow unit =
     (let mismatchedSymbols = filter (\<lambda>s. s_match_percent s < 1) (symbols unit)
      in DetailsRow
           (map (\<lambda>symbol.
                   (let symbolPercent = toFixed2 (s_match_percent symbol * 100)
                    in ''<strong>'' @ s_name symbol @ ''</strong> - '' @ symbolPercent @ ''% (''
                         @ string_of_nat (base_size symbol) @ '' / ''
                         @ string_of_nat (target_size symbol) @ '' bytes)''))
              mismatchedSymbols))"

text \<open>The rows that one iteration of the \<^verbatim>\<open>forEach\<close> in \<^verbatim>\<open>renderTable\<close> appends.\<close>

definition unit_rows :: "string set \<Rightarrow> Unit \<Rightarrow> table_row list" where
  "unit_rows expanded unit =
     (let isMismatch = match_percent unit < 1;
          isExpanded = name unit \<in> expanded;
          matchPercent = toFixed2 (match_percent unit * 100);
          rowClass = (if isMismatch then [''mismatch-row'', ''expandable''] else [])
      in UnitRow
           \<lparr>tr_class = rowClass,
            data_unit_name = name unit,
            td_name = name unit,
            td_percent = matchPercent @ ''%'',
            td_status_class = (if isMismatch then ''status-mismatch'' else ''status-matched''),
            td_status = (if isMismatch then ''Mismatch'' else ''Matched'')\<rparr>
         # (if isMismatch \<and> isExpanded then [renderDetailsRow unit] else []))"

definition filteredUnits :: "state \<Rightarrow> Report \<Rightarrow> Unit list" where
  "filteredUnits s r =
     filter (\<lambda>unit. String_includes (toLowerCase (name unit)) (filterQuery s)) (units r)"

text \<open>
  \<^verbatim>\<open>renderTable\<close> reads \<^verbatim>\<open>state.report.units\<close> first: without a report it throws a
  \<^verbatim>\<open>TypeError\<close> and the table body stays as it was.
\<close>

definition null_units_message :: string where
  "null_units_message =
     ''Cannot read properties of null (reading '' @ [CHR 0x27] @ ''units'' @ [CHR 0x27] @ '')''"

definition renderTable :: "state \<Rightarrow> page \<Rightarrow> outcome" where
  "renderTable s p =
     (case report s of
        None \<Rightarrow> Thrown null_units_message p
      | Some r \<Rightarrow>
          Returned (p\<lparr>tableBody := concat (map (unit_rows (expandedRows s)) (filteredUnits s r))\<rparr>))"

definition renderSortIndicators :: "state \<Rightarrow> page \<Rightarrow> page" where
  "renderSortIndicators s p = p\<lparr>sortIndicator := Some (sortKey s, sortDirection s)\<rparr>"

definition render :: "state \<Rightarrow> page \<Rightarrow> outcome" where
  "render s p =
     (case report s of
        None \<Rightarrow>
          Returned
            (p\<lparr>summarySection_hidden := True,
               resultsTable_hidden := True,
               controlsSection_hidden := True,
               reportPlaceholder_hidden := False,
               reportPlaceholder_text :=
                 ''Click '' @ [CHR 0x22] @ ''Run Verification Report'' @ [CHR 0x22] @ '' to start.'',
               reportPlaceholder_red := False\<rparr>)
      | Some r \<Rightarrow>
          (let p1 = p\<lparr>summarySection_hidden := False,
                      resultsTable_hidden := False,
                      controlsSection_hidden := False,
                      reportPlaceholder_hidden := True\<rparr>;
               p2 = renderSummary r p1
           in case renderTable s p2 of
                Thrown message p3 \<Rightarrow> Thrown message p3
              | Returned p3 \<Rightarrow> Returned (renderSortIndicators s p3)))"

text \<open>
  The object that \<^verbatim>\<open>window.electronAPI.objdiff.runReport()\<close> resolves to: the handler in the
  main process returns either \<^verbatim>\<open>{ error }\<close> or \<^verbatim>\<open>{ report }\<close>.
\<close>

record 'r ipc_result =
  result_error :: "string option"
  result_report :: "'r option"

text \<open>A string property is truthy when it is present and not empty.\<close>

definition truthy :: "string option \<Rightarrow> bool" where
  "truthy v = (case v of None \<Rightarrow> False | Some str \<Rightarrow> str \<noteq> [])"

text \<open>
  \<^verbatim>\<open>handleRunReport\<close>, from the click to the end of the \<^verbatim>\<open>finally\<close> block, given the value
  the awaited call resolved to. What the \<^verbatim>\<open>try\<close> block throws is caught and shown.
\<close>

definition handleRunReport :: "Report ipc_result \<Rightarrow> state \<times> page \<Rightarrow> state \<times> page" where
  "handleRunReport result sp =
     (let s = fst sp;
          p1 = setLoadingState True (snd sp)
      in if truthy (result_error result) then
           (s, setLoadingState False (setErrorState (the (result_error result)) p1))
         else
           (case result_report result of
              None \<Rightarrow>
                (s, setLoadingState False
                      (setErrorState ''The objdiff command did not return a valid report.'' p1))
            | Some r \<Rightarrow>
                (let s1 = s\<lparr>report := Some r, expandedRows := {}, filterQuery := []\<rparr>;
                     p2 = p1\<lparr>filterInput_value := []\<rparr>;
                     s2 = sortUnits s1
                 in case render s2 p2 of
                      Returned p3 \<Rightarrow> (s2, setLoadingState False p3)
                    | Thrown message p3 \<Rightarrow>
                        (s2, setLoadingState False (setErrorState message p3)))))"

text \<open>
  The event listeners. What \<^verbatim>\<open>renderTable\<close> throws inside a listener is caught by nobody:
  the state keeps the assignment made before the call.
\<close>

definition page_after :: "outcome \<Rightarrow> page" where
  "page_after out = (case out of Returned p \<Rightarrow> p | Thrown message p \<Rightarrow> p)"

definition handleRowToggle :: "string \<Rightarrow> state \<times> page \<Rightarrow> state \<times> page" where
  "handleRowToggle unitName sp =
     (let s = fst sp;
          s1 = (if unitName \<in> expandedRows s
                then s\<lparr>expandedRows := expandedRows s - {unitName}\<rparr>
                else s\<lparr>expandedRows := insert unitName (expandedRows s)\<rparr>)
      in (s1, page_after (renderTable s1 (snd sp))))"

text \<open>A click inside the table body, on the given row: \<^verbatim>\<open>closest('tr.expandable')\<close>.\<close>

definition tableBody_click :: "table_row \<Rightarrow> state \<times> page \<Rightarrow> state \<times> page" where
  "tableBody_click row sp =
     (case row of
        UnitRow tr \<Rightarrow>
          (if ''expandable'' \<in> set (tr_class tr) then handleRowToggle (data_unit_name tr) sp
           else sp)
      | DetailsRow lis \<Rightarrow> sp)"

definition filterInput_input :: "string \<Rightarrow> state \<times> page \<Rightarrow> state \<times> page" where
  "filterInput_input val sp =
     (let s1 = (fst sp)\<lparr>filterQuery := toLowerCase val\<rparr>
      in (s1, page_after (renderTable s1 ((snd sp)\<lparr>filterInput_value := val\<rparr>))))"

definition handleSort :: "string \<Rightarrow> state \<times> page \<Rightarrow> state \<times> page" where
  "handleSort newSortKey sp =
     (let s = fst sp;
          s1 = (if sortKey s = newSortKey
                then s\<lparr>sortDirection := (if sortDirection s = Asc then Desc else Asc)\<rparr>
                else s\<lparr>sortKey := newSortKey, sortDirection := Asc\<rparr>);
          s2 = sortUnits s1
      in (s2, page_after (render s2 (snd sp))))"

section \<open>The dashboard view (renderer.js)\<close>

definition sortDashboardUnits :: "state \<Rightarrow> state" where
  "sortDashboardUnits s =
     (case report s of
        None \<Rightarrow> s
      | Some r \<Rightarrow>
          s\<lparr>report :=
              Some (r\<lparr>units := Array_sort (compare_units (sortKey s) (sortDirection s)) (units r)\<rparr>)\<rparr>)"

definition setDashboardLoadingState :: "bool \<Rightarrow> page \<Rightarrow> page" where
  "setDashboardLoadingState isLoading p =
     (if isLoading then
        p\<lparr>runReportBtn_disabled := True,
          runReportBtn_text := ''Running...'',
          reportPlaceholder_text := ''Executing objdiff-cli...'',
          reportPlaceholder_hidden := False,
          resultsTable_hidden := True,
          summarySection_hidden := True\<rparr>
      else
        p\<lparr>runReportBtn_disabled := False,
          runReportBtn_text := ''Run Verification Report''\<rparr>)"

definition setDashboardErrorState :: "string \<Rightarrow> page \<Rightarrow> page" where
  "setDashboardErrorState message p =
     p\<lparr>reportPlaceholder_text := ''Error: '' @ message,
       reportPlaceholder_red := True\<rparr>"

definition renderDashboardSummary :: "Report \<Rightarrow> page \<Rightarrow> page" where
  "renderDashboardSummary r p =
     (let progress = toFixed2 (total_progress r * 100)
      in p\<lparr>overallProgress_text := progress @ ''%'',
           progressBar_width := progress @ ''%'',
           matchedObjects_text :=
             string_of_nat (matched_objects r) @ '' / '' @ string_of_nat (total_objects r)\<rparr>)"

text \<open>The markup that the function mapped over the filtered units returns for one unit.\<close>

definition dashboard_unit_rows :: "string set \<Rightarrow> Unit \<Rightarrow> table_row list" where
  "dashboard_unit_rows expanded unit =
     (let isMismatch = match_percent unit < 1;
          isExpanded = name unit \<in> expanded;
          matchPercent = toFixed2 (match_percent unit * 100)
      in UnitRow
           \<lparr>tr_class = (if isMismatch then [''mismatch-row'', ''expandable''] else []),
            data_unit_name = name unit,
            td_name = name unit,
            td_percent = matchPercent @ ''%'',
            td_status_class = (if isMismatch then ''status-mismatch'' else ''status-matched''),
            td_status = (if isMismatch then ''Mismatch'' else ''Matched'')\<rparr>
         # (if isMismatch \<and> isExpanded then
              (let mismatchedSymbols = filter (\<lambda>s. s_match_percent s < 1) (symbols unit)
               in [DetailsRow
                     (map (\<lambda>s. ''<strong>'' @ s_name s @ ''</strong> - ''
                                  @ toFixed2 (s_match_percent s * 100) @ ''%'')
                        mismatchedSymbols)])
            else []))"

definition renderDashboardTable :: "state \<Rightarrow> page \<Rightarrow> outcome" where
  "renderDashboardTable s p =
     (case report s of
        None \<Rightarrow> Thrown null_units_message p
      | Some r \<Rightarrow>
          (let filteredUnits =
                 filter (\<lambda>unit. String_includes (toLowerCase (name unit)) (filterQuery s)) (units r)
           in Returned
                (p\<lparr>tableBody := concat (map (dashboard_unit_rows (expandedRows s)) filteredUnits)\<rparr>)))"

definition renderDashboardSortIndicators :: "state \<Rightarrow> page \<Rightarrow> page" where
  "renderDashboardSortIndicators s p = p\<lparr>sortIndicator := Some (sortKey s, sortDirection s)\<rparr>"

definition renderDashboard :: "state \<Rightarrow> page \<Rightarrow> outcome" where
  "renderDashboard s p =
     (case report s of
        None \<Rightarrow>
          Returned
            (p\<lparr>summarySection_hidden := True,
               resultsTable_hidden := True,
               controlsSection_hidden := True,
               reportPlaceholder_hidden := False\<rparr>)
      | Some r \<Rightarrow>
          (let p1 = p\<lparr>summarySection_hidden := False,
                      resultsTable_hidden := False,
                      controlsSection_hidden := False,
                      reportPlaceholder_hidden := True\<rparr>;
               p2 = renderDashboardSummary r p1
           in case renderDashboardTable s p2 of
                Thrown message p3 \<Rightarrow> Thrown message p3
              | Returned p3 \<Rightarrow> Returned (renderDashboardSortIndicators s p3)))"

text \<open>
  \<^verbatim>\<open>handleDashboardRunReport\<close> assigns \<^verbatim>\<open>result.report\<close> as it is, also when the property
  is absent.
\<close>

definition handleDashboardRunReport :: "Report ipc_result \<Rightarrow> state \<times> page \<Rightarrow> state \<times> page" where
  "handleDashboardRunReport result sp =
     (let s = fst sp;
          p1 = setDashboardLoadingState True (snd sp)
      in if truthy (result_error result) then
           (s, setDashboardLoadingState False
                 (setDashboardErrorState (the (result_error result)) p1))
         else
           (let s1 = s\<lparr>report := result_report result, expandedRows := {}, filterQuery := []\<rparr>;
                p2 = p1\<lparr>filterInput_value := []\<rparr>;
                s2 = sortDashboardUnits s1
            in case renderDashboard s2 p2 of
                 Returned p3 \<Rightarrow> (s2, setDashboardLoadingState False p3)
               | Thrown message p3 \<Rightarrow>
                   (s2, setDashboardLoadingState False (setDashboardErrorState message p3))))"

definition handleDashboardSort :: "string \<Rightarrow> state \<times> page \<Rightarrow> state \<times> page" where
  "handleDashboardSort newSortKey sp =
     (let s = fst sp;
          s1 = (if sortKey s = newSortKey
                then s\<lparr>sortDirection := (if sortDirection s = Asc then Desc else Asc)\<rparr>
                else s\<lparr>sortKey := newSortKey, sortDirection := Asc\<rparr>);
          s2 = sortDashboardUnits s1
      in (s2, page_after (renderDashboard s2 (snd sp))))"

definition dashboard_filterInput_input :: "string \<Rightarrow> state \<times> page \<Rightarrow> state \<times> page" where
  "dashboard_filterInput_input val sp =
     (let s1 = (fst sp)\<lparr>filterQuery := toLowerCase val\<rparr>
      in (s1, page_after (renderDashboardTable s1 ((snd sp)\<lparr>filterInput_value := val\<rparr>))))"

definition dashboard_tableBody_click :: "table_row \<Rightarrow> state \<times> page \<Rightarrow> state \<times> page" where
  "dashboard_tableBody_click row sp =
     (case row of
        UnitRow tr \<Rightarrow>
          (if ''expandable'' \<in> set (tr_class tr) then
             (let s = fst sp;
                  s1 = (if data_unit_name tr \<in> expandedRows s
                        then s\<lparr>expandedRows := expandedRows s - {data_unit_name tr}\<rparr>
                        else s\<lparr>expandedRows := insert (data_unit_name tr) (expandedRows s)\<rparr>)
              in (s1, page_after (renderDashboardTable s1 (snd sp))))
           else sp)
      | DetailsRow lis \<Rightarrow> sp)"

section \<open>The handler of objdiff:run-report in the main process\<close>

text \<open>
  \<^verbatim>\<open>executeAndLog\<close> resolves to the exit code of the child process (\<^verbatim>\<open>null\<close> when a signal
  ended it) and to what it wrote to its standard output.
\<close>

record exec_result =
  code :: "int option"
  stdout :: string

text \<open>A path read from the store or resolved by the setup handler is falsy when it is absent or empty.\<close>

definition falsy :: "string option \<Rightarrow> bool" where
  "falsy v = (case v of None \<Rightarrow> True | Some str \<Rightarrow> str = [])"

text \<open>
  The handler, given the project path in the store, the resolved path of the tool, and what
  the awaited \<^verbatim>\<open>executeAndLog\<close> call resolves to. \<^verbatim>\<open>JSON.parse\<close> is the parser of the platform
  and a parameter here: it throws a \<^verbatim>\<open>SyntaxError\<close> with a message (\<open>Inl\<close>) or returns the
  value that the text denotes (\<open>Inr\<close>). Exceptions of the store, of the path resolution and
  of the process launch, which the same \<^verbatim>\<open>catch\<close> turns into an error result, are not part
  of this definition.
\<close>

definition objdiff_run_report ::
  "(string \<Rightarrow> string + 'r) \<Rightarrow> string option \<Rightarrow> string option \<Rightarrow> exec_result \<Rightarrow> 'r ipc_result"
where
  "objdiff_run_report JSON_parse projectPath objdiff result =
     (if falsy projectPath then
        \<lparr>result_error = Some ''Project path not set.'', result_report = None\<rparr>
      else if falsy objdiff then
        \<lparr>result_error =
           Some ''objdiff-cli.exe not found. Please set its path in Settings, or place it in your project folder.'',
         result_report = None\<rparr>
      else if code result \<noteq> Some 0 then
        \<lparr>result_error = Some ''objdiff-cli command failed.'', result_report = None\<rparr>
      else
        (case JSON_parse (stdout result) of
           Inl message \<Rightarrow>
             \<lparr>result_error = Some (''Failed to run or parse report: '' @ message),
              result_report = None\<rparr>
         | Inr v \<Rightarrow> \<lparr>result_error = None, result_report = Some v\<rparr>))"

text \<open>The values of JSON texts.\<close>

datatype json =
    JNull
  | JBool bool
  | JNumber rat
  | JString string
  | JArray "json list"
  | JObject "(string \<times> json) list"

section \<open>Reading the state and the rendered table\<close>

text \<open>The units sequence that the state holds (empty without a report).\<close>

definition units_of :: "state \<Rightarrow> Unit list" where
  "units_of s = (case report s of None \<Rightarrow> [] | Some r \<Rightarrow> units r)"

text \<open>The unit rows of a table body, in order, and the item lists of its details rows.\<close>

fun unit_rows_of :: "table_row list \<Rightarrow> unit_row list" where
  "unit_rows_of [] = []"
| "unit_rows_of (UnitRow tr # rows) = tr # unit_rows_of rows"
| "unit_rows_of (DetailsRow lis # rows) = unit_rows_of rows"

fun details_of :: "table_row list \<Rightarrow> string list list" where
  "details_of [] = []"
| "details_of (UnitRow tr # rows) = details_of rows"
| "details_of (DetailsRow lis # rows) = lis # details_of rows"

section \<open>Concrete inputs\<close>

text \<open>The report of the two-unit scenario.\<close>

definition unit_a :: Unit where
  "unit_a = \<lparr>name = ''a.o'', match_percent = 1, symbols = []\<rparr>"

definition unit_b :: Unit where
  "unit_b =
     \<lparr>name = ''b.o'', match_percent = 1 / 4,
      symbols =
        [\<lparr>s_name = ''fn1'', s_match_percent = 0, base_size = 100, target_size = 120\<rparr>,
         \<lparr>s_name = ''fn2'', s_match_percent = 1, base_size = 40, target_size = 40\<rparr>]\<rparr>"

definition scenario_report :: Report where
  "scenario_report =
     \<lparr>total_progress = 1 / 2, matched_objects = 1, total_objects = 2,
      units = [unit_a, unit_b]\<rparr>"

text \<open>A page on which nothing is hidden and nothing is written yet.\<close>

definition blank_page :: page where
  "blank_page =
     \<lparr>runReportBtn_disabled = False, runReportBtn_text = ''Run Verification Report'',
      reportPlaceholder_hidden = False, reportPlaceholder_text = [],
      reportPlaceholder_red = False, resultsTable_hidden = False,
      summarySection_hidden = False, controlsSection_hidden = False,
      filterInput_value = [], overallProgress_text = [], progressBar_width = [],
      matchedObjects_text = [], tableBody = [], sortIndicator = None\<rparr>"

text \<open>The rows of the two units of the scenario, as both surfaces render them.\<close>

definition row_a :: table_row where
  "row_a =
     UnitRow \<lparr>tr_class = [], data_unit_name = ''a.o'', td_name = ''a.o'',
              td_percent = ''100.00%'', td_status_class = ''status-matched'',
              td_status = ''Matched''\<rparr>"

definition row_b :: table_row where
  "row_b =
     UnitRow \<lparr>tr_class = [''mismatch-row'', ''expandable''], data_unit_name = ''b.o'',
              td_name = ''b.o'', td_percent = ''25.00%'', td_status_class = ''status-mismatch'',
              td_status = ''Mismatch''\<rparr>"

text \<open>What the handler returns for the scenario, and what it returns when the tool fails.\<close>

definition scenario_result :: "Report ipc_result" where
  "scenario_result = \<lparr>result_error = None, result_report = Some scenario_report\<rparr>"

definition failed_result :: "Report ipc_result" where
  "failed_result = \<lparr>result_error = Some ''objdiff-cli command failed.'', result_report = None\<rparr>"

text \<open>
  Both surfaces after a first run that returned the scenario, and then after the filter text
  \<^verbatim>\<open>B\<close> and a click on the row of \<^verbatim>\<open>b.o\<close>. \<open>loaded_state\<close> is the state that the first run
  leaves on both.
\<close>

definition loaded_view :: "state \<times> page" where
  "loaded_view = handleRunReport scenario_result (initial_state, blank_page)"

definition dashboard_loaded_view :: "state \<times> page" where
  "dashboard_loaded_view = handleDashboardRunReport scenario_result (initial_state, blank_page)"

definition prior_view :: "state \<times> page" where
  "prior_view = tableBody_click row_b (filterInput_input ''B'' loaded_view)"

definition dashboard_prior_view :: "state \<times> page" where
  "dashboard_prior_view =
     dashboard_tableBody_click row_b (dashboard_filterInput_input ''B'' dashboard_loaded_view)"

definition loaded_state :: state where
  "loaded_state =
     \<lparr>report = Some (scenario_report\<lparr>units := [unit_b, unit_a]\<rparr>),
      expandedRows = {}, filterQuery = [], sortKey = ''match_percent'', sortDirection = Asc\<rparr>"

text \<open>A report in which two units have the same \<^verbatim>\<open>match_percent\<close>.\<close>

definition unit_c :: Unit where
  "unit_c = \<lparr>name = ''c.o'', match_percent = 1 / 4, symbols = []\<rparr>"

definition duplicate_report :: Report where
  "duplicate_report =
     \<lparr>total_progress = 1 / 3, matched_objects = 1, total_objects = 3,
      units = [unit_a, unit_b, unit_c]\<rparr>"

text \<open>
  The values of \<^verbatim>\<open>JSON.parse\<close> on two texts, the empty object and an object whose \<^verbatim>\<open>units\<close>
  is a number, for the evaluation of the handler at these outputs of the tool. Every other
  text counts as rejected here; the only other text given to it below is no JSON text.
\<close>

definition JSON_parse_on_samples :: "string \<Rightarrow> string + json" where
  "JSON_parse_on_samples text =
     (if text = ''{}'' then Inr (JObject [])
      else if text = ''{'' @ [CHR 0x22] @ ''units'' @ [CHR 0x22] @ '':7}''
        then Inr (JObject [(''units'', JNumber 7)])
      else Inl ''Unexpected token'')"

section \<open>Evaluation of the printing functions\<close>

lemma string_of_nat_numeral [simp]:
  "string_of_nat (numeral k) =
     (if numeral k < (10::nat) then [digit (numeral k)]
      else string_of_nat (numeral k div 10) @ [digit (numeral k mod 10)])"
  by (rule string_of_nat.simps)

lemma string_of_nat_0 [simp]: "string_of_nat 0 = ''0''"
  by (simp add: string_of_nat.simps digit_def)

lemma string_of_nat_1 [simp]: "string_of_nat (Suc 0) = ''1''"
  by (simp add: string_of_nat.simps digit_def)

lemma floor_rat_numeral_div [simp]:
  "\<lfloor>(numeral a :: rat) / numeral b\<rfloor> = numeral a div numeral b"
  using floor_divide_of_int_eq [of "numeral a" "numeral b", where ?'a = rat] by simp

lemma toFixed2_values:
  "toFixed2 0 = ''0.00''" "toFixed2 25 = ''25.00''" "toFixed2 50 = ''50.00''"
  "toFixed2 100 = ''100.00''" "toFixed2 200 = ''200.00''"
  by (simp_all add: toFixed2_def digit_def Let_def)

lemma string_of_nat_values:
  "string_of_nat 1 = ''1''" "string_of_nat 2 = ''2''" "string_of_nat 100 = ''100''"
  "string_of_nat 120 = ''120''"
  by (simp_all add: digit_def)

lemma toLowerCase_values:
  "toLowerCase ''a.o'' = ''a.o''" "toLowerCase ''b.o'' = ''b.o''" "toLowerCase ''B'' = ''b''"
  by (simp_all add: toLowerCase_def toLowerCase_char_def)

section \<open>Sorting with a comparator that never orders\<close>

lemma insert_sorted_front: "(\<And>y. cmp x y \<le> 0) \<Longrightarrow> insert_sorted cmp x ys = x # ys"
  by (cases ys) simp_all

lemma Array_sort_all_equal: "(\<And>x y. cmp x y = 0) \<Longrightarrow> Array_sort cmp xs = xs"
  unfolding Array_sort_def by (induction xs) (simp_all add: insert_sorted_front)

lemma compare_units_unknown:
  "key \<noteq> ''name'' \<Longrightarrow> key \<noteq> ''match_percent'' \<Longrightarrow> key \<noteq> ''symbols''
     \<Longrightarrow> compare_units key dir a b = 0"
  by (simp add: compare_units_def prop_less_def)

lemma sortUnits_unknown:
  assumes "sortKey s \<noteq> ''name''" "sortKey s \<noteq> ''match_percent''" "sortKey s \<noteq> ''symbols''"
  shows "sortUnits s = s" and "sortDashboardUnits s = s"
  using assms
  by (simp_all add: sortUnits_def sortDashboardUnits_def Array_sort_all_equal
        compare_units_unknown split: option.split)

text \<open>
  C10. A sort key that names no property of the units (every key other than \<^verbatim>\<open>name\<close>,
  \<^verbatim>\<open>match_percent\<close> and \<^verbatim>\<open>symbols\<close>) makes the comparator return 0 for every pair of units, in
  both directions, and sorting with it returns the state as it is, the order of the units
  included, on both surfaces. Sorting has no failing branch: a click on a header with such a
  key leaves the report as it was and only records the key.
\<close>

theorem unknown_sort_key_is_noop:
  assumes "key \<notin> {''name'', ''match_percent'', ''symbols''}"
  shows "compare_units key dir a b = 0
       \<and> Array_sort (compare_units key dir) us = us
       \<and> sortUnits (s\<lparr>sortKey := key\<rparr>) = s\<lparr>sortKey := key\<rparr>
       \<and> sortDashboardUnits (s\<lparr>sortKey := key\<rparr>) = s\<lparr>sortKey := key\<rparr>
       \<and> report (fst (handleSort key (s, p))) = report s
       \<and> report (fst (handleDashboardSort key (s, p))) = report s
       \<and> sortKey (fst (handleSort key (s, p))) = key
       \<and> sortKey (fst (handleDashboardSort key (s, p))) = key"
proof -
  from assms have k: "key \<noteq> ''name''" "key \<noteq> ''match_percent''" "key \<noteq> ''symbols''"
    by auto
  have c: "compare_units key d x y = 0" for d x y
    using k by (rule compare_units_unknown)
  have a: "Array_sort (compare_units key d) xs = xs" for d xs
    using c by (rule Array_sort_all_equal)
  have u: "sortUnits t = t" "sortDashboardUnits t = t" if "sortKey t = key" for t
    using that k by (simp_all add: sortUnits_unknown)
  show ?thesis
    by (simp add: c a u handleSort_def handleDashboardSort_def Let_def)
qed

theorem unknown_sort_key_is_noop_witness:
  "''size'' \<notin> {''name'', ''match_percent'', ''symbols''}
   \<and> compare_units ''size'' Desc (units scenario_report ! 0) (units scenario_report ! 1) = 0
   \<and> Array_sort (compare_units ''size'' Desc) (units scenario_report) = units scenario_report
   \<and> report (fst (handleSort ''size''
        (initial_state\<lparr>report := Some scenario_report\<rparr>, blank_page)))
       = Some scenario_report"
proof -
  have h: "''size'' \<notin> {''name'', ''match_percent'', ''symbols''}"
    by simp
  show ?thesis
    using h
      unknown_sort_key_is_noop [OF h, of Desc "units scenario_report ! 0"
        "units scenario_report ! 1" "units scenario_report"
        "initial_state\<lparr>report := Some scenario_report\<rparr>" blank_page]
    by simp
qed

section \<open>Sorting by match_percent\<close>

text \<open>
  With the key \<^verbatim>\<open>match_percent\<close> the comparator orders by the number, upwards or downwards,
  and the sort is the stable sort of the library by that key.
\<close>

lemma compare_asc_le:
  "compare_units ''match_percent'' Asc x y \<le> 0 \<longleftrightarrow> match_percent x \<le> match_percent y"
  by (auto simp add: compare_units_def prop_less_def)

lemma compare_desc_le:
  "compare_units ''match_percent'' Desc x y \<le> 0 \<longleftrightarrow> - match_percent x \<le> - match_percent y"
  by (auto simp add: compare_units_def prop_less_def)

lemma insert_sorted_key:
  "(\<And>x y. cmp x y \<le> 0 \<longleftrightarrow> f x \<le> f y) \<Longrightarrow> insert_sorted cmp x ys = insort_key f x ys"
  by (induction ys) simp_all

lemma Array_sort_key:
  assumes "\<And>x y. cmp x y \<le> 0 \<longleftrightarrow> f x \<le> f y"
  shows "Array_sort cmp xs = sort_key f xs"
  unfolding Array_sort_def sort_key_def
  by (induction xs) (simp_all add: insert_sorted_key [of cmp f, OF assms])

lemma Array_sort_asc:
  "Array_sort (compare_units ''match_percent'' Asc) xs = sort_key match_percent xs"
  by (rule Array_sort_key) (rule compare_asc_le)

lemma Array_sort_desc:
  "Array_sort (compare_units ''match_percent'' Desc) xs
     = sort_key (\<lambda>u. - match_percent u) xs"
  by (rule Array_sort_key) (rule compare_desc_le)

lemma filter_key_distinct:
  "distinct (map f xs) \<Longrightarrow> k \<in> set xs \<Longrightarrow> filter (\<lambda>x. f k = f x) xs = [k]"
proof (induction xs)
  case Nil
  then show ?case by simp
next
  case (Cons a xs)
  show ?case
  proof (cases "k = a")
    case True
    with Cons.prems have "filter (\<lambda>x. f a = f x) xs = []"
      by (auto simp add: filter_empty_conv)
    with True show ?thesis by simp
  next
    case False
    with Cons.prems have kx: "k \<in> set xs" by auto
    have "f a \<notin> f ` set xs" using Cons.prems(1) by simp
    with kx have "f k \<noteq> f a" by (metis imageI)
    with kx Cons show ?thesis by simp
  qed
qed

lemma sort_desc_is_rev:
  fixes f :: "'a \<Rightarrow> rat"
  assumes d: "distinct (map f xs)"
  shows "sort_key (\<lambda>u. - f u) xs = rev (sort_key f xs)"
proof (rule properties_for_sort_key)
  show "mset (rev (sort_key f xs)) = mset xs" by simp
next
  fix k assume k: "k \<in> set (rev (sort_key f xs))"
  have "mset (map f (rev (sort_key f xs))) = mset (map f xs)" by simp
  then have d': "distinct (map f (rev (sort_key f xs)))"
    using d by (metis mset_eq_imp_distinct_iff)
  from k have k': "k \<in> set xs" by simp
  have "filter (\<lambda>x. f k = f x) (rev (sort_key f xs)) = [k]"
    using d' k by (rule filter_key_distinct)
  moreover have "filter (\<lambda>x. f k = f x) xs = [k]"
    using d k' by (rule filter_key_distinct)
  ultimately show "filter (\<lambda>x. - f k = - f x) (rev (sort_key f xs))
      = filter (\<lambda>x. - f k = - f x) xs"
    by simp
next
  have "sorted (map f (sort_key f xs))" by simp
  then show "sorted (map (\<lambda>u. - f u) (rev (sort_key f xs)))"
    by (simp add: sorted_map sorted_wrt_rev)
qed

lemma sort_asc_after_desc:
  fixes f :: "'a \<Rightarrow> rat"
  shows "sort_key f (sort_key (\<lambda>u. - f u) xs) = sort_key f xs"
proof (rule properties_for_sort_key)
  show "mset (sort_key f xs) = mset (sort_key (\<lambda>u. - f u) xs)" by simp
next
  fix k
  have "filter (\<lambda>y. - f y = - f k) (sort_key (\<lambda>u. - f u) xs)
      = filter (\<lambda>y. - f y = - f k) xs"
    by (rule sort_key_stable)
  moreover have "filter (\<lambda>y. f y = f k) (sort_key f xs) = filter (\<lambda>y. f y = f k) xs"
    by (rule sort_key_stable)
  ultimately show "filter (\<lambda>x. f k = f x) (sort_key f xs)
      = filter (\<lambda>x. f k = f x) (sort_key (\<lambda>u. - f u) xs)"
    by (simp add: eq_commute)
next
  show "sorted (map f (sort_key f xs))" by simp
qed

lemma Array_sort_Nil [simp]: "Array_sort cmp [] = []"
  by (simp add: Array_sort_def)

lemma sortDashboardUnits_eq: "sortDashboardUnits s = sortUnits s"
  by (simp add: sortDashboardUnits_def sortUnits_def)

lemma sortUnits_params [simp]:
  "sortKey (sortUnits s) = sortKey s" "sortDirection (sortUnits s) = sortDirection s"
  by (simp_all add: sortUnits_def split: option.split)

lemma units_of_sortUnits:
  "units_of (sortUnits s) = Array_sort (compare_units (sortKey s) (sortDirection s)) (units_of s)"
  by (simp add: sortUnits_def units_of_def split: option.split)

lemma sortUnits_fixed:
  "Array_sort (compare_units (sortKey s) (sortDirection s)) (units_of s) = units_of s
     \<Longrightarrow> sortUnits s = s"
  by (simp add: sortUnits_def units_of_def split: option.splits)

lemma handleSort_state:
  "fst (handleSort k sp) =
     sortUnits (if sortKey (fst sp) = k
                then (fst sp)\<lparr>sortDirection :=
                               (if sortDirection (fst sp) = Asc then Desc else Asc)\<rparr>
                else (fst sp)\<lparr>sortKey := k, sortDirection := Asc\<rparr>)"
  by (simp add: handleSort_def Let_def)

lemma handleDashboardSort_state: "fst (handleDashboardSort k sp) = fst (handleSort k sp)"
  by (simp add: handleSort_def handleDashboardSort_def Let_def sortDashboardUnits_eq)

lemma units_of_update [simp]:
  "units_of (s\<lparr>sortDirection := d\<rparr>) = units_of s"
  "units_of (s\<lparr>sortKey := k\<rparr>) = units_of s"
  by (simp_all add: units_of_def)

lemma sort_desc_after_asc:
  fixes f :: "'a \<Rightarrow> rat"
  shows "sort_key (\<lambda>u. - f u) (sort_key f xs) = sort_key (\<lambda>u. - f u) xs"
proof (rule properties_for_sort_key)
  show "mset (sort_key (\<lambda>u. - f u) xs) = mset (sort_key f xs)" by simp
next
  fix k
  have "filter (\<lambda>y. - f y = - f k) (sort_key (\<lambda>u. - f u) xs)
      = filter (\<lambda>y. - f y = - f k) xs"
    by (rule sort_key_stable)
  moreover have "filter (\<lambda>y. f y = f k) (sort_key f xs) = filter (\<lambda>y. f y = f k) xs"
    by (rule sort_key_stable)
  ultimately show "filter (\<lambda>x. - f k = - f x) (sort_key (\<lambda>u. - f u) xs)
      = filter (\<lambda>x. - f k = - f x) (sort_key f xs)"
    by (simp add: eq_commute)
next
  show "sorted (map (\<lambda>u. - f u) (sort_key (\<lambda>u. - f u) xs))" by simp
qed

lemma sorted_neg_key:
  fixes f :: "'a \<Rightarrow> rat"
  shows "sorted (map (\<lambda>u. - f u) xs) = sorted_wrt (\<lambda>a b. b \<le> a) (map f xs)"
  by (simp add: sorted_map sorted_wrt_map)

lemma sort_key_neg_stable:
  fixes f :: "'a \<Rightarrow> rat"
  shows "filter (\<lambda>u. f u = k) (sort_key (\<lambda>u. - f u) xs) = filter (\<lambda>u. f u = k) xs"
  using sort_key_stable [of "\<lambda>u. - f u" "- k" xs] by simp

lemma sort_order_standalone:
  assumes r: "report s0 = Some r"
    and s1: "s1 = sortUnits (s0\<lparr>sortKey := ''match_percent'', sortDirection := Asc\<rparr>)"
    and sp2: "sp2 = handleSort ''match_percent'' (s1, p)"
  shows "units_of s1 = sort_key match_percent (units r)"
    "sorted (map match_percent (units_of s1))"
    "mset (units_of s1) = mset (units r)"
    "filter (\<lambda>u. match_percent u = k) (units_of s1) = filter (\<lambda>u. match_percent u = k) (units r)"
    "units_of (fst sp2) = sort_key (\<lambda>u. - match_percent u) (units r)"
    "sorted_wrt (\<lambda>a b. b \<le> a) (map match_percent (units_of (fst sp2)))"
    "mset (units_of (fst sp2)) = mset (units r)"
    "filter (\<lambda>u. match_percent u = k) (units_of (fst sp2))
       = filter (\<lambda>u. match_percent u = k) (units r)"
proof -
  show u1: "units_of s1 = sort_key match_percent (units r)"
    using r by (simp add: s1 units_of_sortUnits Array_sort_asc) (simp add: units_of_def)
  have k1: "sortKey s1 = ''match_percent''" "sortDirection s1 = Asc"
    by (simp_all add: s1)
  have s2: "fst sp2 = sortUnits (s1\<lparr>sortDirection := Desc\<rparr>)"
    by (simp add: sp2 handleSort_state k1)
  show u2: "units_of (fst sp2) = sort_key (\<lambda>u. - match_percent u) (units r)"
    by (simp add: s2 units_of_sortUnits k1 Array_sort_desc u1 sort_desc_after_asc)
  show "sorted (map match_percent (units_of s1))" "mset (units_of s1) = mset (units r)"
    by (simp_all add: u1)
  show "filter (\<lambda>u. match_percent u = k) (units_of s1)
      = filter (\<lambda>u. match_percent u = k) (units r)"
    by (simp add: u1 sort_key_stable)
  have "sorted (map (\<lambda>u. - match_percent u) (units_of (fst sp2)))"
    by (simp add: u2)
  then show "sorted_wrt (\<lambda>a b. b \<le> a) (map match_percent (units_of (fst sp2)))"
    by (simp add: sorted_neg_key)
  show "mset (units_of (fst sp2)) = mset (units r)"
    by (simp add: u2)
  show "filter (\<lambda>u. match_percent u = k) (units_of (fst sp2))
       = filter (\<lambda>u. match_percent u = k) (units r)"
    by (simp add: u2 sort_key_neg_stable)
qed

lemma sort_toggle_standalone:
  assumes r: "report s0 = Some r"
    and s1: "s1 = sortUnits (s0\<lparr>sortKey := ''match_percent'', sortDirection := Asc\<rparr>)"
    and sp2: "sp2 = handleSort ''match_percent'' (s1, p)"
    and sp3: "sp3 = handleSort ''match_percent'' sp2"
  shows "sortKey (fst sp2) = ''match_percent''" "sortDirection (fst sp2) = Desc"
    "distinct (map match_percent (units r)) \<Longrightarrow> units_of (fst sp2) = rev (units_of s1)"
    "sortKey (fst sp3) = ''match_percent''" "sortDirection (fst sp3) = Asc"
    "units_of (fst sp3) = units_of s1"
    "sortUnits s1 = s1" "sortUnits (fst sp2) = fst sp2"
proof -
  have u1: "units_of s1 = sort_key match_percent (units r)"
    using r by (simp add: s1 units_of_sortUnits Array_sort_asc) (simp add: units_of_def)
  have k1: "sortKey s1 = ''match_percent''" "sortDirection s1 = Asc"
    by (simp_all add: s1)
  have s2: "fst sp2 = sortUnits (s1\<lparr>sortDirection := Desc\<rparr>)"
    by (simp add: sp2 handleSort_state k1)
  show k2: "sortKey (fst sp2) = ''match_percent''" "sortDirection (fst sp2) = Desc"
    by (simp_all add: s2 k1)
  have u2: "units_of (fst sp2) = sort_key (\<lambda>u. - match_percent u) (units_of s1)"
    by (simp add: s2 units_of_sortUnits k1 Array_sort_desc)
  show "units_of (fst sp2) = rev (units_of s1)" if "distinct (map match_percent (units r))"
  proof -
    have "mset (map match_percent (units_of s1)) = mset (map match_percent (units r))"
      by (simp add: u1)
    with that have "distinct (map match_percent (units_of s1))"
      by (metis mset_eq_imp_distinct_iff)
    then have "sort_key (\<lambda>u. - match_percent u) (units_of s1)
        = rev (sort_key match_percent (units_of s1))"
      by (rule sort_desc_is_rev)
    then show ?thesis
      by (simp add: u2) (simp add: u1 sort_key_id_if_sorted)
  qed
  have s3: "fst sp3 = sortUnits ((fst sp2)\<lparr>sortDirection := Asc\<rparr>)"
    by (simp add: sp3 handleSort_state k2)
  show "sortKey (fst sp3) = ''match_percent''" "sortDirection (fst sp3) = Asc"
    by (simp_all add: s3 k2)
  show "units_of (fst sp3) = units_of s1"
    by (simp add: s3 units_of_sortUnits k2 Array_sort_asc u2 sort_asc_after_desc)
       (simp add: u1 sort_key_id_if_sorted)
  show "sortUnits s1 = s1"
    by (rule sortUnits_fixed) (simp add: k1 Array_sort_asc u1 sort_key_id_if_sorted)
  show "sortUnits (fst sp2) = fst sp2"
    by (rule sortUnits_fixed) (simp add: k2 Array_sort_desc u2 sort_key_id_if_sorted)
qed

lemma concrete_sorted:
  "Array_sort (compare_units ''match_percent'' Asc) [unit_a, unit_b, unit_c]
     = [unit_b, unit_c, unit_a]"
  "Array_sort (compare_units ''match_percent'' Desc) [unit_b, unit_c, unit_a]
     = [unit_a, unit_b, unit_c]"
  "Array_sort (compare_units ''match_percent'' Asc) [unit_a, unit_b, unit_c]
     = [unit_b, unit_c, unit_a]"
  "Array_sort (compare_units ''match_percent'' Desc) [unit_b, unit_a] = [unit_a, unit_b]"
  "Array_sort (compare_units ''match_percent'' Asc) [unit_a, unit_b] = [unit_b, unit_a]"
  by (simp_all add: unit_a_def unit_b_def unit_c_def Array_sort_def compare_units_def
        prop_less_def)

text \<open>
  C1. Take any state with a report, sort it by \<^verbatim>\<open>match_percent\<close> ascending (\<open>s1\<close>), and
  click the header of \<^verbatim>\<open>match_percent\<close> twice (\<open>sp2\<close>, then \<open>sp3\<close>; on the dashboard \<open>dp2\<close>,
  then \<open>dp3\<close>). The ascending sort leaves the units of the report in ascending order of
  \<^verbatim>\<open>match_percent\<close>, units with the same value in the order they had: it is the stable sort
  of the units by that number. The first click turns the direction to descending and leaves
  the same units in descending order, units with the same value again in the order they had
  in the report; if no two units have the same \<^verbatim>\<open>match_percent\<close> this is exactly the reverse
  of the ascending order. The second click turns the direction back to ascending and
  restores the ascending order exactly, duplicates or not. Sorting again in the same
  direction changes nothing. In general a click on the header of the current key toggles the
  direction, and a click on the header of another key sets that key with the direction
  ascending.
\<close>

theorem sort_toggle_match_percent:
  assumes "report s0 = Some r"
    and "s1 = sortUnits (s0\<lparr>sortKey := ''match_percent'', sortDirection := Asc\<rparr>)"
    and "sp2 = handleSort ''match_percent'' (s1, p)"
    and "sp3 = handleSort ''match_percent'' sp2"
    and "dp2 = handleDashboardSort ''match_percent'' (s1, p)"
    and "dp3 = handleDashboardSort ''match_percent'' dp2"
  shows "sortDashboardUnits (s0\<lparr>sortKey := ''match_percent'', sortDirection := Asc\<rparr>) = s1
       \<and> units_of s1 = sort_key match_percent (units r)
       \<and> sorted (map match_percent (units_of s1))
       \<and> mset (units_of s1) = mset (units r)
       \<and> filter (\<lambda>u. match_percent u = m) (units_of s1)
           = filter (\<lambda>u. match_percent u = m) (units r)
       \<and> sortDirection (fst sp2) = Desc \<and> sortDirection (fst dp2) = Desc
       \<and> sorted_wrt (\<lambda>a b. b \<le> a) (map match_percent (units_of (fst sp2)))
       \<and> mset (units_of (fst sp2)) = mset (units r)
       \<and> filter (\<lambda>u. match_percent u = m) (units_of (fst sp2))
           = filter (\<lambda>u. match_percent u = m) (units r)
       \<and> units_of (fst dp2) = units_of (fst sp2)
       \<and> (distinct (map match_percent (units r)) \<longrightarrow>
            units_of (fst sp2) = rev (units_of s1) \<and> units_of (fst dp2) = rev (units_of s1))
       \<and> sortDirection (fst sp3) = Asc \<and> sortDirection (fst dp3) = Asc
       \<and> units_of (fst sp3) = units_of s1 \<and> units_of (fst dp3) = units_of s1
       \<and> sortUnits s1 = s1 \<and> sortUnits (fst sp2) = fst sp2
       \<and> sortDashboardUnits s1 = s1 \<and> sortDashboardUnits (fst dp2) = fst dp2
       \<and> sortKey (fst (handleSort k (s, q))) = k
       \<and> sortKey (fst (handleDashboardSort k (s, q))) = k
       \<and> sortDirection (fst (handleSort k (s, q)))
           = (if sortKey s = k then (if sortDirection s = Asc then Desc else Asc) else Asc)
       \<and> sortDirection (fst (handleDashboardSort k (s, q)))
           = (if sortKey s = k then (if sortDirection s = Asc then Desc else Asc) else Asc)"
proof -
  note a = sort_toggle_standalone [OF assms(1) assms(2) assms(3) assms(4)]
  note b = sort_order_standalone [OF assms(1) assms(2) assms(3)]
  have d2: "fst dp2 = fst sp2"
    by (simp add: assms(3) assms(5) handleDashboardSort_state)
  have d3: "fst dp3 = fst sp3"
    by (simp add: assms(4) assms(6) handleDashboardSort_state handleSort_state d2)
  have g: "sortKey (fst (handleSort k (s, q))) = k"
    "sortDirection (fst (handleSort k (s, q)))
       = (if sortKey s = k then (if sortDirection s = Asc then Desc else Asc) else Asc)"
    by (simp_all add: handleSort_state)
  show ?thesis
    using a g
    by (simp add: b(2-4,6-8) assms(2) [symmetric] d2 d3 sortDashboardUnits_eq
          handleDashboardSort_state)
       (rule b(1))
qed

text \<open>
  The scenario, whose two units differ in \<^verbatim>\<open>match_percent\<close>, on the standalone page, and the
  report with a duplicate on the dashboard: there the descending order is not the reverse of
  the ascending one, and the second click still restores the ascending order.
\<close>

theorem sort_toggle_match_percent_witness:
  "report (initial_state\<lparr>report := Some scenario_report\<rparr>) = Some scenario_report
   \<and> distinct (map match_percent (units scenario_report))
   \<and> units_of (sortUnits (initial_state\<lparr>report := Some scenario_report\<rparr>)) = [unit_b, unit_a]
   \<and> units_of (fst (handleSort ''match_percent''
         (sortUnits (initial_state\<lparr>report := Some scenario_report\<rparr>), blank_page)))
       = [unit_a, unit_b]
   \<and> units_of (fst (handleSort ''match_percent'' (handleSort ''match_percent''
         (sortUnits (initial_state\<lparr>report := Some scenario_report\<rparr>), blank_page))))
       = [unit_b, unit_a]
   \<and> report (initial_state\<lparr>report := Some duplicate_report\<rparr>) = Some duplicate_report
   \<and> units_of (sortUnits (initial_state\<lparr>report := Some duplicate_report\<rparr>))
       = [unit_b, unit_c, unit_a]
   \<and> units_of (fst (handleDashboardSort ''match_percent''
         (sortUnits (initial_state\<lparr>report := Some duplicate_report\<rparr>), blank_page)))
       = [unit_a, unit_b, unit_c]
   \<and> units_of (fst (handleDashboardSort ''match_percent'' (handleDashboardSort ''match_percent''
         (sortUnits (initial_state\<lparr>report := Some duplicate_report\<rparr>), blank_page))))
       = [unit_b, unit_c, unit_a]"
proof -
  have h: "report (initial_state\<lparr>report := Some R\<rparr>) = Some R" for R
    by simp
  have i: "initial_state\<lparr>report := Some R\<rparr>
      = initial_state\<lparr>report := Some R, sortKey := ''match_percent'', sortDirection := Asc\<rparr>"
    for R
    by (simp add: initial_state_def)
  have d: "distinct (map match_percent (units scenario_report))"
    by (simp add: scenario_report_def unit_a_def unit_b_def)
  have k: "sortKey (initial_state\<lparr>report := Some R\<rparr>) = ''match_percent''"
    "sortDirection (initial_state\<lparr>report := Some R\<rparr>) = Asc"
    "units_of (initial_state\<lparr>report := Some R\<rparr>) = units R" for R
    by (simp_all add: initial_state_def units_of_def)
  have e1: "units_of (sortUnits (initial_state\<lparr>report := Some scenario_report\<rparr>))
      = [unit_b, unit_a]"
    by (simp add: units_of_sortUnits k) (simp add: scenario_report_def concrete_sorted)
  have e2: "units_of (sortUnits (initial_state\<lparr>report := Some duplicate_report\<rparr>))
      = [unit_b, unit_c, unit_a]"
    by (simp add: units_of_sortUnits k) (simp add: duplicate_report_def concrete_sorted)
  note ts = sort_toggle_match_percent [OF h [of scenario_report] refl refl refl refl refl,
      where p = blank_page and m = 1 and k = "''name''" and s = initial_state
        and q = blank_page,
      unfolded i [symmetric] e1]
  note td = sort_toggle_match_percent [OF h [of duplicate_report] refl refl refl refl refl,
      where p = blank_page and m = "1 / 4" and k = "''name''" and s = initial_state
        and q = blank_page,
      unfolded i [symmetric] e2]
  have f0: "fst (handleDashboardSort ''match_percent''
        (sortUnits (initial_state\<lparr>report := Some duplicate_report\<rparr>), blank_page))
      = sortUnits ((sortUnits (initial_state\<lparr>report := Some duplicate_report\<rparr>))
          \<lparr>sortDirection := Desc\<rparr>)"
    by (simp add: handleDashboardSort_state handleSort_state k)
  have f: "units_of (fst (handleDashboardSort ''match_percent''
        (sortUnits (initial_state\<lparr>report := Some duplicate_report\<rparr>), blank_page)))
      = [unit_a, unit_b, unit_c]"
    unfolding f0
    by (simp add: k e2 concrete_sorted
          units_of_sortUnits [of "(sortUnits (initial_state\<lparr>report := Some duplicate_report\<rparr>))
            \<lparr>sortDirection := Desc\<rparr>"])
  show ?thesis
    using d ts td by (simp add: h e1 e2 f)
qed

section \<open>Running the report\<close>

text \<open>
  C7. After a run that succeeds (no error in the result, and a report in it) the set of
  expanded rows is empty and the filter query and the filter input are empty, on both
  surfaces, whatever the state and the page were before, so also when it is the second run.
\<close>

theorem successful_run_clears_expansion_and_filter:
  assumes "\<not> truthy (result_error result)" and "result_report result = Some r"
  shows "expandedRows (fst (handleRunReport result sp)) = {}
       \<and> filterQuery (fst (handleRunReport result sp)) = []
       \<and> filterInput_value (snd (handleRunReport result sp)) = []
       \<and> expandedRows (fst (handleDashboardRunReport result sp)) = {}
       \<and> filterQuery (fst (handleDashboardRunReport result sp)) = []
       \<and> filterInput_value (snd (handleDashboardRunReport result sp)) = []"
  using assms
  by (simp add: handleRunReport_def handleDashboardRunReport_def Let_def sortUnits_def
        sortDashboardUnits_def render_def renderDashboard_def renderTable_def
        renderDashboardTable_def renderSortIndicators_def renderDashboardSortIndicators_def
        renderSummary_def renderDashboardSummary_def setLoadingState_def
        setDashboardLoadingState_def)

text \<open>The scenario, loaded on both surfaces from the initial state.\<close>

lemma scenario_sorted:
  "Array_sort (compare_units ''match_percent'' Asc) (units scenario_report) = [unit_b, unit_a]"
  by (simp add: scenario_report_def unit_a_def unit_b_def Array_sort_def compare_units_def
        prop_less_def)

lemma unit_names [simp]: "name unit_a = ''a.o''" "name unit_b = ''b.o''"
  by (simp_all add: unit_a_def unit_b_def)

lemma scenario_unit_rows:
  "unit_rows {} unit_a = [row_a]" "unit_rows {} unit_b = [row_b]"
  "dashboard_unit_rows {} unit_a = [row_a]" "dashboard_unit_rows {} unit_b = [row_b]"
  "unit_rows {''a.o''} unit_a = [row_a]" "unit_rows {''a.o''} unit_b = [row_b]"
  "unit_rows {''b.o''} unit_a = [row_a]" "dashboard_unit_rows {''b.o''} unit_a = [row_a]"
  "unit_rows {''b.o''} unit_b
     = [row_b, DetailsRow [''<strong>fn1</strong> - 0.00% (100 / 120 bytes)'']]"
  "dashboard_unit_rows {''b.o''} unit_b = [row_b, DetailsRow [''<strong>fn1</strong> - 0.00%'']]"
  by (simp_all add: unit_a_def unit_b_def unit_rows_def dashboard_unit_rows_def
        renderDetailsRow_def row_a_def row_b_def toFixed2_values digit_def Let_def)

lemma scenario_loaded:
  "handleRunReport scenario_result (initial_state, p)
   = (loaded_state,
      p\<lparr>runReportBtn_disabled := False, runReportBtn_text := ''Run Verification Report'',
        reportPlaceholder_hidden := True,
        reportPlaceholder_text := ''Executing objdiff-cli, this may take a moment...'',
        reportPlaceholder_red := False, resultsTable_hidden := False,
        summarySection_hidden := False, controlsSection_hidden := False,
        filterInput_value := [], overallProgress_text := ''50.00%'',
        progressBar_width := ''50.00%'', matchedObjects_text := ''1 / 2'',
        tableBody := [row_b, row_a],
        sortIndicator := Some (''match_percent'', Asc)\<rparr>)"
  by (simp add: handleRunReport_def scenario_result_def truthy_def initial_state_def
        sortUnits_def render_def renderTable_def renderSummary_def renderSortIndicators_def
        setLoadingState_def scenario_sorted Let_def filteredUnits_def loaded_state_def
        toLowerCase_values scenario_unit_rows)
     (simp add: scenario_report_def toFixed2_values digit_def)

lemma dashboard_scenario_loaded:
  "handleDashboardRunReport scenario_result (initial_state, p)
   = (loaded_state,
      p\<lparr>runReportBtn_disabled := False, runReportBtn_text := ''Run Verification Report'',
        reportPlaceholder_hidden := True,
        reportPlaceholder_text := ''Executing objdiff-cli...'',
        resultsTable_hidden := False,
        summarySection_hidden := False, controlsSection_hidden := False,
        filterInput_value := [], overallProgress_text := ''50.00%'',
        progressBar_width := ''50.00%'', matchedObjects_text := ''1 / 2'',
        tableBody := [row_b, row_a],
        sortIndicator := Some (''match_percent'', Asc)\<rparr>)"
  by (simp add: handleDashboardRunReport_def scenario_result_def truthy_def initial_state_def
        sortDashboardUnits_def renderDashboard_def renderDashboardTable_def
        renderDashboardSummary_def renderDashboardSortIndicators_def
        setDashboardLoadingState_def scenario_sorted Let_def loaded_state_def
        toLowerCase_values scenario_unit_rows)
     (simp add: scenario_report_def toFixed2_values digit_def)

lemma loaded_view_state: "fst loaded_view = loaded_state" "fst dashboard_loaded_view = loaded_state"
  by (simp_all add: loaded_view_def dashboard_loaded_view_def scenario_loaded
        dashboard_scenario_loaded)

lemma prior_view_state:
  "fst prior_view = loaded_state\<lparr>expandedRows := {''b.o''}, filterQuery := ''b''\<rparr>"
  "fst dashboard_prior_view = loaded_state\<lparr>expandedRows := {''b.o''}, filterQuery := ''b''\<rparr>"
  by (simp_all add: prior_view_def dashboard_prior_view_def tableBody_click_def
        dashboard_tableBody_click_def row_b_def handleRowToggle_def filterInput_input_def
        dashboard_filterInput_input_def Let_def loaded_view_state toLowerCase_values
        loaded_state_def)

theorem successful_run_clears_expansion_and_filter_witness:
  "\<not> truthy (result_error scenario_result)
   \<and> result_report scenario_result = Some scenario_report
   \<and> expandedRows (fst prior_view) = {''b.o''} \<and> filterQuery (fst prior_view) = ''b''
   \<and> expandedRows (fst (handleRunReport scenario_result prior_view)) = {}
   \<and> filterQuery (fst (handleRunReport scenario_result prior_view)) = []
   \<and> expandedRows (fst dashboard_prior_view) = {''b.o''}
   \<and> expandedRows (fst (handleDashboardRunReport scenario_result dashboard_prior_view)) = {}
   \<and> filterQuery (fst (handleDashboardRunReport scenario_result dashboard_prior_view)) = []"
proof -
  have h: "\<not> truthy (result_error scenario_result)"
    "result_report scenario_result = Some scenario_report"
    by (simp_all add: scenario_result_def truthy_def)
  show ?thesis
    using h successful_run_clears_expansion_and_filter [OF h, of prior_view]
      successful_run_clears_expansion_and_filter [OF h, of dashboard_prior_view]
    by (simp add: prior_view_state)
qed

text \<open>
  C3, as the code has it. When the result of the run carries an error, both surfaces show the
  placeholder with the text \<^verbatim>\<open>Error:\<close> followed by the message, and the summary and the table
  are hidden. The state is left exactly as it was: the report acquired before, the expanded
  rows, the filter query and the sort parameters all stay; the report is not displayed, and
  it is not discarded.
\<close>

theorem failed_run_shows_error_and_keeps_state:
  assumes "truthy (result_error result)"
  shows "fst (handleRunReport result sp) = fst sp
       \<and> reportPlaceholder_text (snd (handleRunReport result sp))
           = ''Error: '' @ the (result_error result)
       \<and> \<not> reportPlaceholder_hidden (snd (handleRunReport result sp))
       \<and> summarySection_hidden (snd (handleRunReport result sp))
       \<and> resultsTable_hidden (snd (handleRunReport result sp))
       \<and> fst (handleDashboardRunReport result sp) = fst sp
       \<and> reportPlaceholder_text (snd (handleDashboardRunReport result sp))
           = ''Error: '' @ the (result_error result)
       \<and> \<not> reportPlaceholder_hidden (snd (handleDashboardRunReport result sp))
       \<and> summarySection_hidden (snd (handleDashboardRunReport result sp))
       \<and> resultsTable_hidden (snd (handleDashboardRunReport result sp))"
  using assms
  by (simp add: handleRunReport_def handleDashboardRunReport_def Let_def setLoadingState_def
        setDashboardLoadingState_def setErrorState_def setDashboardErrorState_def)

theorem failed_run_shows_error_and_keeps_state_witness:
  "truthy (result_error failed_result)
   \<and> fst (handleRunReport failed_result prior_view) = fst prior_view
   \<and> reportPlaceholder_text (snd (handleRunReport failed_result prior_view))
       = ''Error: objdiff-cli command failed.''
   \<and> summarySection_hidden (snd (handleRunReport failed_result prior_view))
   \<and> resultsTable_hidden (snd (handleRunReport failed_result prior_view))
   \<and> fst (handleDashboardRunReport failed_result dashboard_prior_view) = fst dashboard_prior_view
   \<and> reportPlaceholder_text (snd (handleDashboardRunReport failed_result dashboard_prior_view))
       = ''Error: objdiff-cli command failed.''"
proof -
  have h: "truthy (result_error failed_result)"
    by (simp add: failed_result_def truthy_def)
  have m: "the (result_error failed_result) = ''objdiff-cli command failed.''"
    by (simp add: failed_result_def)
  show ?thesis
    using h m failed_run_shows_error_and_keeps_state [OF h, of prior_view]
      failed_run_shows_error_and_keeps_state [OF h, of dashboard_prior_view]
    by simp
qed

text \<open>
  A failed run does not discard the report, on either surface: after the scenario was
  loaded, filtered and expanded, a run that fails leaves the report of the scenario in the
  state.
\<close>

theorem failed_run_keeps_report_counterexample:
  "report (fst prior_view) = Some (scenario_report\<lparr>units := [unit_b, unit_a]\<rparr>)
   \<and> report (fst (handleRunReport failed_result prior_view))
       = Some (scenario_report\<lparr>units := [unit_b, unit_a]\<rparr>)
   \<and> report (fst (handleDashboardRunReport failed_result dashboard_prior_view))
       = Some (scenario_report\<lparr>units := [unit_b, unit_a]\<rparr>)"
  by (simp add: handleRunReport_def handleDashboardRunReport_def failed_result_def truthy_def
        Let_def prior_view_state loaded_state_def)

text \<open>
  C9. When the project path and the path of the tool are set and the tool ends with an exit
  code other than 0 (1, any other number, or none because a signal ended it), the handler
  returns the error \<^verbatim>\<open>objdiff-cli command failed.\<close> and no report, without parsing the output.
  Given that result, both surfaces show the placeholder with the text
  \<^verbatim>\<open>Error: objdiff-cli command failed.\<close>, keep the summary and the table hidden, and leave the
  state as it was.
\<close>

theorem nonzero_exit_gives_error_state:
  assumes "\<not> falsy projectPath" and "\<not> falsy objdiff" and "code result \<noteq> Some 0"
    and "res = objdiff_run_report JSON_parse projectPath objdiff result"
  shows "res = \<lparr>result_error = Some ''objdiff-cli command failed.'', result_report = None\<rparr>
       \<and> fst (handleRunReport res sp) = fst sp
       \<and> reportPlaceholder_text (snd (handleRunReport res sp))
           = ''Error: objdiff-cli command failed.''
       \<and> \<not> reportPlaceholder_hidden (snd (handleRunReport res sp))
       \<and> summarySection_hidden (snd (handleRunReport res sp))
       \<and> resultsTable_hidden (snd (handleRunReport res sp))
       \<and> fst (handleDashboardRunReport res sp) = fst sp
       \<and> reportPlaceholder_text (snd (handleDashboardRunReport res sp))
           = ''Error: objdiff-cli command failed.''
       \<and> \<not> reportPlaceholder_hidden (snd (handleDashboardRunReport res sp))
       \<and> summarySection_hidden (snd (handleDashboardRunReport res sp))
       \<and> resultsTable_hidden (snd (handleDashboardRunReport res sp))"
proof -
  have r: "res = \<lparr>result_error = Some ''objdiff-cli command failed.'', result_report = None\<rparr>"
    using assms by (simp add: objdiff_run_report_def)
  show ?thesis
    unfolding r
    by (simp add: handleRunReport_def handleDashboardRunReport_def Let_def truthy_def
          setLoadingState_def setDashboardLoadingState_def setErrorState_def
          setDashboardErrorState_def)
qed

theorem nonzero_exit_gives_error_state_witness:
  "\<not> falsy (Some ''C:/melee-project'') \<and> \<not> falsy (Some ''objdiff-cli.exe'')
   \<and> code \<lparr>code = Some 1, stdout = []\<rparr> \<noteq> Some 0
   \<and> objdiff_run_report (\<lambda>text. Inl ''Unexpected end of JSON input'')
        (Some ''C:/melee-project'') (Some ''objdiff-cli.exe'') \<lparr>code = Some 1, stdout = []\<rparr>
       = failed_result
   \<and> reportPlaceholder_text (snd (handleRunReport failed_result loaded_view))
       = ''Error: objdiff-cli command failed.''
   \<and> \<not> reportPlaceholder_hidden (snd (handleRunReport failed_result loaded_view))
   \<and> summarySection_hidden (snd (handleRunReport failed_result loaded_view))
   \<and> resultsTable_hidden (snd (handleRunReport failed_result loaded_view))
   \<and> summarySection_hidden (snd (handleDashboardRunReport failed_result dashboard_loaded_view))
   \<and> resultsTable_hidden (snd (handleDashboardRunReport failed_result dashboard_loaded_view))"
proof -
  have h: "\<not> falsy (Some ''C:/melee-project'')" "\<not> falsy (Some ''objdiff-cli.exe'')"
    "code \<lparr>code = Some 1, stdout = []\<rparr> \<noteq> Some 0"
    by (simp_all add: falsy_def)
  note t = nonzero_exit_gives_error_state [OF h refl,
      of "\<lambda>text. Inl ''Unexpected end of JSON input''"]
  have r: "objdiff_run_report (\<lambda>text. Inl ''Unexpected end of JSON input'')
        (Some ''C:/melee-project'') (Some ''objdiff-cli.exe'') \<lparr>code = Some 1, stdout = []\<rparr>
      = failed_result"
    using t [of loaded_view] by (simp add: failed_result_def)
  show ?thesis
    using h r t [of loaded_view, unfolded r] t [of dashboard_loaded_view, unfolded r]
    by simp
qed

text \<open>
  C4, as the code has it. When the paths are set and the tool ends with exit code 0, the
  handler fails exactly when \<^verbatim>\<open>JSON.parse\<close> throws on the output, with the message
  \<^verbatim>\<open>Failed to run or parse report:\<close> followed by the message of the parser. Every value that
  the parser returns is handed on as the report, whatever its shape: there is no check of
  the \<^verbatim>\<open>units\<close> field or of the types of the fields.
\<close>

theorem run_report_accepts_any_json:
  assumes "\<not> falsy projectPath" and "\<not> falsy objdiff" and "code result = Some 0"
    and "res = objdiff_run_report JSON_parse projectPath objdiff result"
  shows "(result_error res \<noteq> None) = (\<exists>message. JSON_parse (stdout result) = Inl message)
       \<and> (\<forall>message. JSON_parse (stdout result) = Inl message \<longrightarrow>
             res = \<lparr>result_error = Some (''Failed to run or parse report: '' @ message),
                    result_report = None\<rparr>)
       \<and> (\<forall>v. JSON_parse (stdout result) = Inr v \<longrightarrow>
             res = \<lparr>result_error = None, result_report = Some v\<rparr>)"
  using assms by (auto simp add: objdiff_run_report_def split: sum.splits)

theorem run_report_accepts_any_json_witness:
  "\<not> falsy (Some ''C:/melee-project'') \<and> \<not> falsy (Some ''objdiff-cli.exe'')
   \<and> JSON_parse_on_samples (''{'' @ [CHR 0x22] @ ''units'' @ [CHR 0x22] @ '':7}'')
       = Inr (JObject [(''units'', JNumber 7)])
   \<and> objdiff_run_report JSON_parse_on_samples (Some ''C:/melee-project'')
        (Some ''objdiff-cli.exe'')
        \<lparr>code = Some 0, stdout = ''{'' @ [CHR 0x22] @ ''units'' @ [CHR 0x22] @ '':7}''\<rparr>
       = \<lparr>result_error = None, result_report = Some (JObject [(''units'', JNumber 7)])\<rparr>
   \<and> JSON_parse_on_samples ''objdiff: error'' = Inl ''Unexpected token''
   \<and> objdiff_run_report JSON_parse_on_samples (Some ''C:/melee-project'')
        (Some ''objdiff-cli.exe'') \<lparr>code = Some 0, stdout = ''objdiff: error''\<rparr>
       = \<lparr>result_error = Some ''Failed to run or parse report: Unexpected token'',
          result_report = None\<rparr>"
proof -
  have h: "\<not> falsy (Some ''C:/melee-project'')" "\<not> falsy (Some ''objdiff-cli.exe'')"
    by (simp_all add: falsy_def)
  have c: "code \<lparr>code = Some 0, stdout = t\<rparr> = Some 0" for t
    by simp
  have p: "JSON_parse_on_samples (''{'' @ [CHR 0x22] @ ''units'' @ [CHR 0x22] @ '':7}'')
       = Inr (JObject [(''units'', JNumber 7)])"
    "JSON_parse_on_samples ''objdiff: error'' = Inl ''Unexpected token''"
    by (simp_all add: JSON_parse_on_samples_def)
  note t = run_report_accepts_any_json [OF h c refl, of JSON_parse_on_samples]
  show ?thesis
    using h p t [of "''{'' @ [CHR 0x22] @ ''units'' @ [CHR 0x22] @ '':7}''"]
      t [of "''objdiff: error''"]
    by simp
qed

text \<open>
  Output without the \<^verbatim>\<open>units\<close> field is not rejected: for the output \<^verbatim>\<open>{}\<close> the handler
  returns the empty object as the report, and no error.
\<close>

theorem run_report_accepts_empty_object_counterexample:
  "objdiff_run_report JSON_parse_on_samples (Some ''C:/melee-project'') (Some ''objdiff-cli.exe'')
     \<lparr>code = Some 0, stdout = ''{}''\<rparr>
   = \<lparr>result_error = None, result_report = Some (JObject [])\<rparr>"
  by (simp add: objdiff_run_report_def falsy_def JSON_parse_on_samples_def)

section \<open>Filtering\<close>

lemma String_includes_sublist: "String_includes s q \<longleftrightarrow> sublist q s"
  by (induction s) (simp_all add: sublist_Cons_right)

lemma unit_rows_of_append [simp]: "unit_rows_of (xs @ ys) = unit_rows_of xs @ unit_rows_of ys"
  by (induction xs rule: unit_rows_of.induct) simp_all

lemma details_of_append [simp]: "details_of (xs @ ys) = details_of xs @ details_of ys"
  by (induction xs rule: details_of.induct) simp_all

lemma unit_rows_of_unit_rows [simp]:
  "map data_unit_name (unit_rows_of (unit_rows E u)) = [name u]"
  "map data_unit_name (unit_rows_of (dashboard_unit_rows E u)) = [name u]"
  by (simp_all add: unit_rows_def dashboard_unit_rows_def renderDetailsRow_def Let_def)

lemma unit_rows_of_table:
  "map data_unit_name (unit_rows_of (concat (map (unit_rows E) us))) = map name us"
  "map data_unit_name (unit_rows_of (concat (map (dashboard_unit_rows E) us))) = map name us"
  by (induction us) simp_all

text \<open>
  C2. Let the state hold a report and let the user type \<open>q\<close> into the filter input. Let
  \<open>kept\<close> be the units whose lower-case name contains the lower-case form of \<open>q\<close>, in the
  order of the units sequence. On both surfaces the handler stores the lower-case form of
  \<open>q\<close> and changes nothing else in the state (the units sequence of the report stays as it
  is), and the table body consists of the rows of the units in \<open>kept\<close>, in that order, one
  unit row each. \<open>kept\<close> holds exactly the units of the report that match, it is a
  subsequence of the units sequence, and for the empty query it is the whole sequence.
  Nothing about the lower-case conversion is used but that the name and the query pass
  through the same function.
\<close>

theorem filter_by_lowercase_substring:
  assumes "report s = Some r"
    and "kept = filter (\<lambda>u. sublist (toLowerCase q) (toLowerCase (name u))) (units r)"
  shows "fst (filterInput_input q (s, p)) = s\<lparr>filterQuery := toLowerCase q\<rparr>
       \<and> units_of (fst (filterInput_input q (s, p))) = units r
       \<and> filteredUnits (fst (filterInput_input q (s, p))) r = kept
       \<and> tableBody (snd (filterInput_input q (s, p)))
           = concat (map (unit_rows (expandedRows s)) kept)
       \<and> map data_unit_name (unit_rows_of (tableBody (snd (filterInput_input q (s, p)))))
           = map name kept
       \<and> fst (dashboard_filterInput_input q (s, p)) = s\<lparr>filterQuery := toLowerCase q\<rparr>
       \<and> units_of (fst (dashboard_filterInput_input q (s, p))) = units r
       \<and> tableBody (snd (dashboard_filterInput_input q (s, p)))
           = concat (map (dashboard_unit_rows (expandedRows s)) kept)
       \<and> map data_unit_name (unit_rows_of (tableBody (snd (dashboard_filterInput_input q (s, p)))))
           = map name kept
       \<and> set kept = {u \<in> set (units r). sublist (toLowerCase q) (toLowerCase (name u))}
       \<and> subseq kept (units r)
       \<and> (q = [] \<longrightarrow> kept = units r)"
proof -
  have f: "filteredUnits (s\<lparr>filterQuery := toLowerCase q\<rparr>) r = kept"
    by (simp add: filteredUnits_def String_includes_sublist assms(2))
  have a: "filterInput_input q (s, p)
      = (s\<lparr>filterQuery := toLowerCase q\<rparr>,
         p\<lparr>filterInput_value := q, tableBody := concat (map (unit_rows (expandedRows s)) kept)\<rparr>)"
    using assms(1) f by (simp add: filterInput_input_def Let_def renderTable_def page_after_def)
  have b: "dashboard_filterInput_input q (s, p)
      = (s\<lparr>filterQuery := toLowerCase q\<rparr>,
         p\<lparr>filterInput_value := q,
           tableBody := concat (map (dashboard_unit_rows (expandedRows s)) kept)\<rparr>)"
    using assms(1)
    by (simp add: dashboard_filterInput_input_def Let_def renderDashboardTable_def page_after_def
          String_includes_sublist assms(2))
  have c: "q = [] \<Longrightarrow> kept = units r"
    by (simp add: assms(2) toLowerCase_def)
  have d: "subseq kept (units r)"
    by (simp add: assms(2))
  have e: "units_of (s\<lparr>filterQuery := toLowerCase q\<rparr>) = units r"
    by (simp add: units_of_def assms(1))
  show ?thesis
    using c d by (simp add: a b e f unit_rows_of_table) (auto simp add: assms(2))
qed

theorem filter_by_lowercase_substring_witness:
  "report loaded_state = Some (scenario_report\<lparr>units := [unit_b, unit_a]\<rparr>)
   \<and> map data_unit_name (unit_rows_of (tableBody (snd (filterInput_input ''B''
         (loaded_state, blank_page))))) = [''b.o'']
   \<and> map data_unit_name (unit_rows_of (tableBody (snd (dashboard_filterInput_input ''B''
         (loaded_state, blank_page))))) = [''b.o'']
   \<and> map data_unit_name (unit_rows_of (tableBody (snd (filterInput_input []
         (loaded_state, blank_page))))) = [''b.o'', ''a.o'']
   \<and> units_of (fst (filterInput_input ''B'' (loaded_state, blank_page))) = [unit_b, unit_a]"
proof -
  have h: "report loaded_state = Some (scenario_report\<lparr>units := [unit_b, unit_a]\<rparr>)"
    by (simp add: loaded_state_def)
  have u: "units (scenario_report\<lparr>units := [unit_b, unit_a]\<rparr>) = [unit_b, unit_a]"
    by simp
  have k: "filter (\<lambda>u. sublist (toLowerCase ''B'') (toLowerCase (name u))) [unit_b, unit_a]
      = [unit_b]"
    by (simp add: toLowerCase_values String_includes_sublist [symmetric])
  have e: "filter (\<lambda>u. sublist (toLowerCase []) (toLowerCase (name u))) [unit_b, unit_a]
      = [unit_b, unit_a]"
    by (simp add: toLowerCase_def)
  note t = filter_by_lowercase_substring [OF h refl, of _ blank_page, unfolded u]
  show ?thesis
    using h t [of "''B''", unfolded k] t [of "[]", unfolded e]
    by (simp add: units_of_def)
qed

section \<open>Rows, status labels and details\<close>

lemma details_of_unit_rows:
  "details_of (unit_rows E u)
     = (if match_percent u < 1 \<and> name u \<in> E
        then [map (\<lambda>symbol. ''<strong>'' @ s_name symbol @ ''</strong> - ''
                      @ toFixed2 (s_match_percent symbol * 100) @ ''% (''
                      @ string_of_nat (base_size symbol) @ '' / ''
                      @ string_of_nat (target_size symbol) @ '' bytes)'')
                (filter (\<lambda>s. s_match_percent s < 1) (symbols u))]
        else [])"
  by (simp add: unit_rows_def renderDetailsRow_def Let_def)

lemma details_of_dashboard_unit_rows:
  "details_of (dashboard_unit_rows E u)
     = (if match_percent u < 1 \<and> name u \<in> E
        then [map (\<lambda>s. ''<strong>'' @ s_name s @ ''</strong> - ''
                      @ toFixed2 (s_match_percent s * 100) @ ''%'')
                (filter (\<lambda>s. s_match_percent s < 1) (symbols u))]
        else [])"
  by (simp add: dashboard_unit_rows_def Let_def)

lemma status_of_unit_rows:
  "map td_status (unit_rows_of (unit_rows E u))
     = [if match_percent u < 1 then ''Mismatch'' else ''Matched'']"
  "map td_status (unit_rows_of (dashboard_unit_rows E u))
     = [if match_percent u < 1 then ''Mismatch'' else ''Matched'']"
  by (simp_all add: unit_rows_def dashboard_unit_rows_def renderDetailsRow_def Let_def)

lemma class_of_unit_rows:
  "map tr_class (unit_rows_of (unit_rows E u))
     = [if match_percent u < 1 then [''mismatch-row'', ''expandable''] else []]"
  "map tr_class (unit_rows_of (dashboard_unit_rows E u))
     = [if match_percent u < 1 then [''mismatch-row'', ''expandable''] else []]"
  by (simp_all add: unit_rows_def dashboard_unit_rows_def renderDetailsRow_def Let_def)

lemma click_matched_rows:
  assumes "\<not> match_percent u < 1"
  shows "row \<in> set (unit_rows E u) \<Longrightarrow> tableBody_click row sp = sp"
    and "row \<in> set (dashboard_unit_rows E u) \<Longrightarrow> dashboard_tableBody_click row sp = sp"
  using assms
  by (simp_all add: unit_rows_def dashboard_unit_rows_def Let_def tableBody_click_def
        dashboard_tableBody_click_def)

text \<open>
  C6. On both surfaces, for every unit whose \<^verbatim>\<open>match_percent\<close> lies in the range from 0 to 1
  that the report format fixes, the status label is \<^verbatim>\<open>Matched\<close> exactly when \<^verbatim>\<open>match_percent\<close>
  equals 1, and \<^verbatim>\<open>Mismatch\<close> for every other value. A unit whose \<^verbatim>\<open>match_percent\<close> equals 1
  is never expandable, whatever its symbols and whatever the set of expanded rows holds: its
  row has no class (so not the class \<^verbatim>\<open>expandable\<close> that makes a row clickable), no details
  row follows it, and a click on any of its rows changes nothing.
\<close>

theorem status_label_matched_iff_one:
  assumes "0 \<le> match_percent u" and "match_percent u \<le> 1"
  shows "(map td_status (unit_rows_of (unit_rows E u)) = [''Matched'']) = (match_percent u = 1)
       \<and> (map td_status (unit_rows_of (unit_rows E u)) = [''Mismatch''])
           = (match_percent u \<noteq> 1)
       \<and> (map td_status (unit_rows_of (dashboard_unit_rows E u)) = [''Matched''])
           = (match_percent u = 1)
       \<and> (map td_status (unit_rows_of (dashboard_unit_rows E u)) = [''Mismatch''])
           = (match_percent u \<noteq> 1)
       \<and> (match_percent u = 1 \<longrightarrow>
            details_of (unit_rows E u) = [] \<and> details_of (dashboard_unit_rows E u) = []
            \<and> map tr_class (unit_rows_of (unit_rows E u)) = [[]]
            \<and> map tr_class (unit_rows_of (dashboard_unit_rows E u)) = [[]]
            \<and> (\<forall>row \<in> set (unit_rows E u). tableBody_click row sp = sp)
            \<and> (\<forall>row \<in> set (dashboard_unit_rows E u). dashboard_tableBody_click row sp = sp))"
proof -
  have l: "(match_percent u < 1) = (match_percent u \<noteq> 1)"
    using assms(2) by auto
  have m: "\<not> match_percent u < 1" if "match_percent u = 1"
    using that by simp
  show ?thesis
    by (auto simp add: status_of_unit_rows class_of_unit_rows details_of_unit_rows
          details_of_dashboard_unit_rows l click_matched_rows [OF m])
qed

text \<open>
  The two units of the scenario: \<^verbatim>\<open>a.o\<close> at 1 is labelled \<^verbatim>\<open>Matched\<close> and is not expandable
  even with its name among the expanded rows, \<^verbatim>\<open>b.o\<close> at 0.25 is labelled \<^verbatim>\<open>Mismatch\<close>.
\<close>

theorem status_label_matched_iff_one_witness:
  "(0::rat) \<le> match_percent unit_a \<and> match_percent unit_a \<le> 1 \<and> match_percent unit_a = 1
   \<and> unit_rows {''a.o''} unit_a = [row_a]
   \<and> row_a \<in> set (unit_rows {''a.o''} unit_a)
   \<and> map td_status (unit_rows_of (unit_rows {''a.o''} unit_a)) = [''Matched'']
   \<and> map td_status (unit_rows_of (dashboard_unit_rows {''a.o''} unit_a)) = [''Matched'']
   \<and> details_of (unit_rows {''a.o''} unit_a) = []
   \<and> details_of (dashboard_unit_rows {''a.o''} unit_a) = []
   \<and> tableBody_click row_a loaded_view = loaded_view
   \<and> (0::rat) \<le> match_percent unit_b \<and> match_percent unit_b \<le> 1 \<and> match_percent unit_b \<noteq> 1
   \<and> map td_status (unit_rows_of (unit_rows {} unit_b)) = [''Mismatch'']
   \<and> map td_status (unit_rows_of (dashboard_unit_rows {} unit_b)) = [''Mismatch'']"
proof -
  have ha: "(0::rat) \<le> match_percent unit_a" "match_percent unit_a \<le> 1"
    and hb: "(0::rat) \<le> match_percent unit_b" "match_percent unit_b \<le> 1"
    and v: "match_percent unit_a = 1" "match_percent unit_b \<noteq> 1"
    by (simp_all add: unit_a_def unit_b_def)
  have r: "unit_rows {''a.o''} unit_a = [row_a]"
    by (rule scenario_unit_rows)
  note ta = status_label_matched_iff_one [OF ha, of "{''a.o''}" loaded_view]
  note tb = status_label_matched_iff_one [OF hb, of "{}"]
  show ?thesis
    using ha hb v ta tb by (simp add: r)
qed

text \<open>
  C8. The standalone page, from the initial state, after a run that returns the report of
  the scenario: the summary shows \<^verbatim>\<open>50.00%\<close> and \<^verbatim>\<open>1 / 2\<close>, the table has the row of \<^verbatim>\<open>b.o\<close>
  before the row of \<^verbatim>\<open>a.o\<close>, the row of \<^verbatim>\<open>a.o\<close> is not expandable (a click on it changes
  nothing, and even with its name among the expanded rows the table is the same), and a
  click on the row of \<^verbatim>\<open>b.o\<close> adds exactly one details row with exactly one item, that of
  \<^verbatim>\<open>fn1\<close> with \<^verbatim>\<open>0.00%\<close> and \<^verbatim>\<open>100 / 120 bytes\<close>.
\<close>

theorem two_unit_scenario:
  "overallProgress_text (snd (handleRunReport scenario_result (initial_state, p))) = ''50.00%''
   \<and> matchedObjects_text (snd (handleRunReport scenario_result (initial_state, p))) = ''1 / 2''
   \<and> \<not> summarySection_hidden (snd (handleRunReport scenario_result (initial_state, p)))
   \<and> \<not> resultsTable_hidden (snd (handleRunReport scenario_result (initial_state, p)))
   \<and> sortKey (fst (handleRunReport scenario_result (initial_state, p))) = ''match_percent''
   \<and> sortDirection (fst (handleRunReport scenario_result (initial_state, p))) = Asc
   \<and> tableBody (snd (handleRunReport scenario_result (initial_state, p))) = [row_b, row_a]
   \<and> tableBody_click row_a (handleRunReport scenario_result (initial_state, p))
       = handleRunReport scenario_result (initial_state, p)
   \<and> tableBody (snd (handleRowToggle ''a.o''
         (handleRunReport scenario_result (initial_state, p)))) = [row_b, row_a]
   \<and> tableBody (snd (tableBody_click row_b
         (handleRunReport scenario_result (initial_state, p))))
       = [row_b, DetailsRow [''<strong>fn1</strong> - 0.00% (100 / 120 bytes)''], row_a]"
  by (simp add: scenario_loaded)
     (simp add: tableBody_click_def row_a_def row_b_def handleRowToggle_def Let_def
        renderTable_def page_after_def filteredUnits_def loaded_state_def toLowerCase_values
        scenario_unit_rows [unfolded row_a_def row_b_def])

text \<open>
  C5 on the dashboard. After the same run on the dashboard, a click on the row of \<^verbatim>\<open>b.o\<close>
  adds one details row with one item for \<^verbatim>\<open>fn1\<close>, and the item shows the name and the
  percentage only: the byte counts that the standalone page prints are not there.
\<close>

theorem dashboard_details_without_sizes:
  "tableBody (snd (dashboard_tableBody_click row_b
      (handleDashboardRunReport scenario_result (initial_state, blank_page))))
   = [row_b, DetailsRow [''<strong>fn1</strong> - 0.00%''], row_a]"
  by (simp add: dashboard_scenario_loaded)
     (simp add: dashboard_tableBody_click_def row_a_def row_b_def Let_def
        renderDashboardTable_def page_after_def loaded_state_def toLowerCase_values
        scenario_unit_rows [unfolded row_a_def row_b_def])

end
